theory Spec2Isabelle
  imports Complex_Main
begin

section \<open>Numbers and configuration constants of DogDetect2.py\<close>

text \<open>
  A Python float is an IEEE double: a real with a significand of 53 bits. An operation
  on floats gives the double nearest to the exact result, ties going to the even
  significand. \<open>double\<close> is that rounding, with the exponent left unbounded: the floats of
  the program are times in seconds and pixel counts, far from overflow and from the
  subnormal range. A float expression is written \<open>double (...)\<close> around the exact
  operation; the conversion of an integer to a float is \<open>double (real_of_int n)\<close>.
\<close>

definition round_even :: "real \<Rightarrow> int" where
  "round_even q =
     (if q - real_of_int \<lfloor>q\<rfloor> < 1 / 2 then \<lfloor>q\<rfloor>
      else if q - real_of_int \<lfloor>q\<rfloor> > 1 / 2 then \<lfloor>q\<rfloor> + 1
      else if even \<lfloor>q\<rfloor> then \<lfloor>q\<rfloor> else \<lfloor>q\<rfloor> + 1)"

definition expo :: "real \<Rightarrow> int" where
  "expo x = \<lfloor>log 2 \<bar>x\<bar>\<rfloor>"

definition ulp :: "real \<Rightarrow> real" where
  "ulp x = 2 powi (expo x - 52)"

definition double :: "real \<Rightarrow> real" where
  "double x = (if x = 0 then 0 else real_of_int (round_even (x / ulp x)) * ulp x)"

text \<open>
  Python's \<^verbatim>\<open>int(x)\<close> on a float truncates towards zero. The floats it is applied to
  (lines 208, 412, 413, 570) come from integers far below \<open>2 ^ 53\<close> by products,
  halvings and quotients whose truncation does not depend on the last bit, so they are
  written with exact operations.
\<close>

definition py_int :: "real \<Rightarrow> int" where
  "py_int r = (if 0 \<le> r then \<lfloor>r\<rfloor> else \<lceil>r\<rceil>)"

text \<open>\<^verbatim>\<open>str(n)\<close> for the integers that end up in file names.\<close>

fun str_nat :: "nat \<Rightarrow> string" where
  "str_nat n = (if n < 10 then [''0123456789'' ! n]
                else str_nat (n div 10) @ [''0123456789'' ! (n mod 10)])"

definition str_int :: "int \<Rightarrow> string" where
  "str_int i = (if i < 0 then CHR ''-'' # str_nat (nat (- i)) else str_nat (nat i))"


definition TIME_BETWEEN_MESSAGES :: int where
  "TIME_BETWEEN_MESSAGES = 30"

definition IM_WIDTH :: int where
  "IM_WIDTH = 2032"

definition IM_HEIGHT :: int where
  "IM_HEIGHT = 608"

definition FILTER_SCALE :: int where
  "FILTER_SCALE = 4"

definition FOCUS_SENSITIVITY :: int where
  "FOCUS_SENSITIVITY = 70"

definition PHASES :: int where
  "PHASES = 3"

definition NIGHT_MODE_ON_THRESH :: int where
  "NIGHT_MODE_ON_THRESH = 4"

definition NIGHT_MODE_OFF_THRESH :: int where
  "NIGHT_MODE_OFF_THRESH = 16"

definition NIGHT_MODE_FRAME_SLOWDOWN :: int where
  "NIGHT_MODE_FRAME_SLOWDOWN = 60"

text \<open>\<^verbatim>\<open>piHost\<close> is only bound on the Raspberry Pi, so the RAM disk is the one of the Pi.\<close>

definition RAM_DISK :: string where
  "RAM_DISK = ''/var/ramdisk/''"

definition focusSensitivity :: int where
  "focusSensitivity =
     py_int (50 / real_of_int (FOCUS_SENSITIVITY * FOCUS_SENSITIVITY)
             * real_of_int (IM_HEIGHT * IM_WIDTH)
             / real_of_int (FILTER_SCALE * FILTER_SCALE))"


section \<open>The capture loop: night mode and the digitally locked loop\<close>

text \<open>
  The module-level variables that the capture loop (lines 608-686) reads and writes.
  Tick counts come from \<^verbatim>\<open>cv2.getTickCount()\<close> and are integers; \<^verbatim>\<open>freq\<close> is the
  tick frequency, a parameter of the model.
\<close>

record sched =
  phase :: int
  frameTotal :: int
  avgTime :: real
  t1 :: int
  nightMode :: bool
  keepAlive :: int

text \<open>Lines 623-629: the night flag with its two thresholds, and the re-seed on exit.\<close>

definition night_update :: "real \<Rightarrow> int \<Rightarrow> sched \<Rightarrow> sched" where
  "night_update LumaAvg tick s =
     (if LumaAvg < real_of_int NIGHT_MODE_ON_THRESH \<and> \<not> nightMode s then
        s\<lparr>nightMode := True\<rparr>
      else if LumaAvg > real_of_int NIGHT_MODE_OFF_THRESH \<and> nightMode s then
        s\<lparr>nightMode := False, t1 := tick,
          frameTotal := frameTotal s mod PHASES + PHASES, avgTime := 0.5\<rparr>
      else s)"

text \<open>
  Line 642: the integer \<^verbatim>\<open>cv2.getTickCount() - t1\<close> is converted to a float and divided
  by the float \<^verbatim>\<open>freq\<close>.
\<close>

definition deltaTime :: "real \<Rightarrow> int \<Rightarrow> sched \<Rightarrow> real" where
  "deltaTime freq tick s = double (double (real_of_int (tick - t1 s)) / freq)"

text \<open>
  Lines 636-646: the calls of \<^verbatim>\<open>sleep\<close> of one cycle, in the order in which they are
  made, each with its duration in seconds.
\<close>

definition cycle_sleeps :: "real \<Rightarrow> int \<Rightarrow> sched \<Rightarrow> real list" where
  "cycle_sleeps freq tick s =
     (if frameTotal s < PHASES then [0.25]
      else
        (if deltaTime freq tick s < double (0.75 * avgTime s)
         then [double (double 0.9 * double (avgTime s - deltaTime freq tick s))] else [])
        @ (if nightMode s then [real_of_int NIGHT_MODE_FRAME_SLOWDOWN] else []))"

text \<open>
  One pass of the loop body: the night flag, the sleeps, the running average
  (lines 649-656) and the counters (lines 684-686). The three ticks are the three
  reads of the tick counter at lines 627, 642 and 649.
\<close>

definition main_iteration ::
  "real \<Rightarrow> real \<Rightarrow> int \<Rightarrow> int \<Rightarrow> int \<Rightarrow> sched \<Rightarrow> real list \<times> sched" where
  "main_iteration freq LumaAvg tickNight tickDelta t2 s =
     (let s1 = night_update LumaAvg tickNight s;
          sleeps = cycle_sleeps freq tickDelta s1;
          time1 = double (double (real_of_int (t2 - t1 s1)) / freq)
      in (sleeps,
          s1\<lparr>avgTime := double (double (double (avgTime s1 * double (real_of_int (frameTotal s1)))
                                            + time1)
                                    / double (real_of_int (frameTotal s1 + 1))),
             t1 := t2,
             phase := (phase s1 + 1) mod PHASES,
             frameTotal := frameTotal s1 + 1,
             keepAlive := keepAlive s1 + 1\<rparr>))"


text \<open>
  The loop over the captured frames: each frame comes with its measured luma and the
  three ticks read while it is handled. The result lists the state after each pass.
\<close>

fun main_loop :: "real \<Rightarrow> (real \<times> int \<times> int \<times> int) list \<Rightarrow> sched \<Rightarrow> sched list" where
  "main_loop freq [] s = []"
| "main_loop freq ((LumaAvg, tickNight, tickDelta, t2) # frames) s =
     (let s' = snd (main_iteration freq LumaAvg tickNight tickDelta t2 s)
      in s' # main_loop freq frames s')"


section \<open>The watchdog petter\<close>










section \<open>The object detector: region of interest, throttle and archive\<close>

text \<open>
  The globals that \<^verbatim>\<open>object_detector\<close> declares (lines 380-386). The reference frame
  and its age only decide which contours the motion detection finds; the contours are an
  input of the model. \<^verbatim>\<open>catOrDogSeen\<close> starts as a float, so it is a real.
\<close>

record detector =
  frameCount :: int
  catOrDogSeen :: real
  catOrDogLastSeen :: real
  imageLastSent :: int
  imageCapture :: bool
  lastActiveTime :: int
  refX :: int
  refY :: int
  refW :: int
  refH :: int
  dogImageCount :: int
  catImageCount :: int

text \<open>A contour, as far as the code looks at it: its area and its bounding rectangle.\<close>

record contour =
  contourArea :: real
  boundingRect :: "int \<times> int \<times> int \<times> int"

text \<open>
  Line 404: \<^verbatim>\<open>sorted(cnts, key=cv2.contourArea, reverse=True)[:1]\<close>. Python's
  sort is stable also with \<^verbatim>\<open>reverse=True\<close>, as is sorting on the negated key.
\<close>

definition largest :: "contour list \<Rightarrow> contour list" where
  "largest cnts = take 1 (sort_key (\<lambda>c. - contourArea c) cnts)"

text \<open>Lines 405-409: the loop over the contours kept, with the tick read at line 409.\<close>

fun update_roi :: "int \<Rightarrow> contour list \<Rightarrow> detector \<Rightarrow> detector" where
  "update_roi tick [] d = d"
| "update_roi tick (c # cs) d =
     update_roi tick cs
       (if contourArea c > real_of_int focusSensitivity
        then (case boundingRect c of
                (x, y, w, h) \<Rightarrow>
                  d\<lparr>refX := x, refY := y, refW := w, refH := h, lastActiveTime := tick\<rparr>)
        else d)"

text \<open>Lines 412-413.\<close>

definition searchWidth :: int where
  "searchWidth = py_int (real_of_int IM_HEIGHT * 1.0)"

definition searchOffset :: "detector \<Rightarrow> int" where
  "searchOffset d =
     max 0 (py_int ((real_of_int (refX d) + real_of_int (refW d) / 2) * real_of_int FILTER_SCALE
                    - real_of_int searchWidth / 2))"

text \<open>
  Line 419: the columns \<^verbatim>\<open>searchOffset:searchOffset + searchWidth\<close> of a frame that
  is \<open>IM_WIDTH\<close> wide. A slice of non-negative bounds stops at the end of the array.
\<close>

definition processFrame_columns :: "detector \<Rightarrow> int \<times> int" where
  "processFrame_columns d =
     (min (searchOffset d) IM_WIDTH, min (searchOffset d + searchWidth) IM_WIDTH)"

text \<open>
  A row of the network's output, as far as the decision uses it: \<^verbatim>\<open>detection[2]\<close> and
  \<^verbatim>\<open>int(detection[1])\<close>. Lines 430-440 keep the rows that score above 0.3.
\<close>

record detection =
  score :: real
  classId :: int

definition kept :: "detection list \<Rightarrow> detection list" where
  "kept dets = filter (\<lambda>x. score x > 0.3) dets"

text \<open>Lines 454-469, with \<^verbatim>\<open>DEBUG = False\<close>.\<close>

definition cat_flag :: "detection list \<Rightarrow> bool" where
  "cat_flag dets = list_ex (\<lambda>x. score x > 0.5 \<and> classId x = 17) (kept dets)"

definition dog_flag :: "detection list \<Rightarrow> bool" where
  "dog_flag dets = list_ex (\<lambda>x. score x > 0.5 \<and> classId x = 18) (kept dets)"

definition catOrDog_flag :: "detection list \<Rightarrow> bool" where
  "catOrDog_flag dets =
     list_ex (\<lambda>x. score x > 0.5 \<and> (classId x = 17 \<or> classId x = 18)) (kept dets)"

text \<open>Lines 479-484.\<close>

definition messageObject :: "bool \<Rightarrow> bool \<Rightarrow> string" where
  "messageObject dog cat =
     (if dog \<and> cat then ''Dog and Cat'' else if dog then ''Dog'' else ''Cat'')"

text \<open>
  What a call does to the outside: it starts the sprinkler thread, starts a
  \<^verbatim>\<open>notify\<close> thread with a subject and a text, or writes the frame to a file.
  Starting a thread is taken to succeed.
\<close>

datatype effect =
  Sprinklers
  | Notify string string
  | ImWrite string

text \<open>Lines 500-507: the notice of a detection, with the wall-clock time formatted.\<close>

definition detected_notice :: "string \<Rightarrow> bool \<Rightarrow> bool \<Rightarrow> effect" where
  "detected_notice stamp dog cat =
     Notify (messageObject dog cat @ '' Detected'')
            (''There is a '' @ messageObject dog cat @ '' in the front yard! '' @ stamp)"

text \<open>Line 511.\<close>

definition imageFileName :: "bool \<Rightarrow> bool \<Rightarrow> detector \<Rightarrow> string" where
  "imageFileName dog cat d =
     RAM_DISK @ messageObject dog cat @ ''_'' @ str_int (dogImageCount d) @ ''.jpg''"

text \<open>
  Line 489: more than the time between messages has passed since the last one sent. The
  left side is an integer, the right side the float product; Python compares an integer
  with a float by their exact values.
\<close>

definition cooled :: "real \<Rightarrow> int \<Rightarrow> detector \<Rightarrow> bool" where
  "cooled freq tick d \<longleftrightarrow>
     real_of_int (tick - imageLastSent d)
       > double (double (real_of_int TIME_BETWEEN_MESSAGES) * freq)"

text \<open>
  Lines 485-516: a target is present. \<open>tick\<close> is the tick read at line 486 and
  \<open>stamp\<close> the formatted wall-clock time of line 503.
\<close>

definition target_seen ::
  "real \<Rightarrow> int \<Rightarrow> string \<Rightarrow> bool \<Rightarrow> bool \<Rightarrow> detector \<Rightarrow> effect list \<times> detector" where
  "target_seen freq tick stamp dog cat d =
     (let d1 = d\<lparr>catOrDogLastSeen := catOrDogSeen d, catOrDogSeen := real_of_int tick\<rparr>
      in if cooled freq tick d1
         then ([Sprinklers, detected_notice stamp dog cat], d1\<lparr>imageLastSent := tick\<rparr>)
         else ([ImWrite (imageFileName dog cat d1)],
               if dog then d1\<lparr>dogImageCount := (dogImageCount d1 + 1) mod 100\<rparr>
               else d1\<lparr>catImageCount := (catImageCount d1 + 1) mod 100\<rparr>))"

text \<open>Lines 518-527: the manual capture.\<close>

definition manual_capture :: "string \<Rightarrow> detector \<Rightarrow> effect list" where
  "manual_capture stamp d =
     (if imageCapture d
      then [Notify ''Manual Image Captured'' (''Manual image capture @ '' @ stamp)]
      else [])"

text \<open>
  The whole call. \<open>tickActive\<close> and \<open>tickSeen\<close> are the reads of the tick counter at
  lines 409 and 486, \<open>cnts\<close> the contours of line 403, \<open>dets\<close> the rows of the
  network's output.
\<close>

definition object_detector ::
  "real \<Rightarrow> int \<Rightarrow> int \<Rightarrow> string \<Rightarrow> contour list \<Rightarrow> detection list \<Rightarrow> detector
     \<Rightarrow> effect list \<times> detector" where
  "object_detector freq tickActive tickSeen stamp cnts dets d =
     (let d1 = update_roi tickActive (largest cnts) d;
          d2 = d1\<lparr>frameCount := frameCount d1 + 1\<rparr>;
          r = (if catOrDog_flag dets
               then target_seen freq tickSeen stamp (dog_flag dets) (cat_flag dets) d2
               else ([], d2))
      in (fst r @ manual_capture stamp (snd r), snd r))"

text \<open>
  A sequence of calls, one per frame, each with its ticks, time stamp, contours and
  detections. Between two calls the capture loop sets \<^verbatim>\<open>imageCapture\<close> (lines 675-681),
  so each frame also carries the value of that flag.
\<close>

record frame_in =
  in_capture :: bool
  in_tickActive :: int
  in_tickSeen :: int
  in_stamp :: string
  in_contours :: "contour list"
  in_detections :: "detection list"

definition detect_frame :: "real \<Rightarrow> frame_in \<Rightarrow> detector \<Rightarrow> effect list \<times> detector" where
  "detect_frame freq f d =
     object_detector freq (in_tickActive f) (in_tickSeen f) (in_stamp f) (in_contours f)
       (in_detections f) (d\<lparr>imageCapture := in_capture f\<rparr>)"

fun detector_run :: "real \<Rightarrow> frame_in list \<Rightarrow> detector \<Rightarrow> (effect list \<times> detector) list" where
  "detector_run freq [] d = []"
| "detector_run freq (f # frames) d =
     detect_frame freq f d # detector_run freq frames (snd (detect_frame freq f d))"

text \<open>The values of the globals when the first frame arrives (lines 219-225, 582-594).\<close>

definition detector_init :: "real \<Rightarrow> detector" where
  "detector_init freq =
     \<lparr>frameCount = 0,
      catOrDogSeen = double (double (real_of_int TIME_BETWEEN_MESSAGES) * freq),
      catOrDogLastSeen = 0, imageLastSent = 0, imageCapture = False, lastActiveTime = 0,
      refX = 0, refY = 0, refW = 0, refH = 0, dogImageCount = 0, catImageCount = 0\<rparr>"

definition sched_init :: sched where
  "sched_init =
     \<lparr>phase = 0, frameTotal = 0, avgTime = 0, t1 = 0, nightMode = False, keepAlive = 0\<rparr>"


section \<open>Observations on the effects and the state\<close>

text \<open>The sticky region of interest.\<close>

definition roi :: "detector \<Rightarrow> int \<times> int \<times> int \<times> int" where
  "roi d = (refX d, refY d, refW d, refH d)"

text \<open>
  The centre of the region of interest, scaled back to the columns of the full frame,
  and the centre of a range of columns.
\<close>

definition roi_centre :: "detector \<Rightarrow> real" where
  "roi_centre d = (real_of_int (refX d) + real_of_int (refW d) / 2) * real_of_int FILTER_SCALE"

definition columns_centre :: "int \<times> int \<Rightarrow> real" where
  "columns_centre cols = (real_of_int (fst cols) + real_of_int (snd cols)) / 2"

text \<open>A notice of a detection, as opposed to the one of a manual capture.\<close>

fun is_detection_notice :: "effect \<Rightarrow> bool" where
  "is_detection_notice (Notify subject body) = (subject \<noteq> ''Manual Image Captured'')"
| "is_detection_notice Sprinklers = False"
| "is_detection_notice (ImWrite name) = False"

fun is_archive :: "effect \<Rightarrow> bool" where
  "is_archive (ImWrite name) = True"
| "is_archive Sprinklers = False"
| "is_archive (Notify subject body) = False"

definition notices :: "effect list \<Rightarrow> nat" where
  "notices es = length (filter is_detection_notice es)"

definition sprinkler_starts :: "effect list \<Rightarrow> nat" where
  "sprinkler_starts es = length (filter (\<lambda>e. e = Sprinklers) es)"

definition archived :: "effect list \<Rightarrow> nat" where
  "archived es = length (filter is_archive es)"


section \<open>Sample inputs\<close>

text \<open>Two frames at dusk and dawn: a dark one, then a bright one.\<close>

definition dusk :: "(real \<times> int \<times> int \<times> int) list" where
  "dusk = [(3, 10, 11, 12), (17, 20, 21, 22)]"

text \<open>A contour at the right edge of the 508 columns of the scaled frame.\<close>

definition right_edge :: contour where
  "right_edge = \<lparr>contourArea = 900, boundingRect = (450, 100, 50, 20)\<rparr>"

text \<open>A still frame, and a frame showing a cat or a dog, at a given tick.\<close>

definition still_frame :: "int \<Rightarrow> frame_in" where
  "still_frame tick =
     \<lparr>in_capture = False, in_tickActive = tick, in_tickSeen = tick, in_stamp = [],
      in_contours = [], in_detections = []\<rparr>"

definition animal_frame :: "int \<Rightarrow> int \<Rightarrow> frame_in" where
  "animal_frame cls tick =
     \<lparr>in_capture = False, in_tickActive = tick, in_tickSeen = tick, in_stamp = [],
      in_contours = [], in_detections = [\<lparr>score = 0.9, classId = cls\<rparr>]\<rparr>"

text \<open>A frame with one moving blob, and blobs in the middle and near the left edge.\<close>

definition motion_frame :: "contour \<Rightarrow> int \<Rightarrow> frame_in" where
  "motion_frame c tick =
     \<lparr>in_capture = False, in_tickActive = tick, in_tickSeen = tick, in_stamp = [],
      in_contours = [c], in_detections = []\<rparr>"






section \<open>Rounding to a double\<close>


lemma round_even_int: "round_even (real_of_int k) = k"
  by (simp add: round_even_def)


lemma two_powr: "2 powr real_of_int k = (2::real) powi k"
  by (simp add: powr_real_of_int')

lemma two_powr_succ: "2 powr (real_of_int k + 1) = (2::real) powi (k + 1)"
  using two_powr[of "k + 1"] by simp

lemma expo_bounds:
  assumes "x \<noteq> 0"
  shows "2 powi expo x \<le> \<bar>x\<bar>" and "\<bar>x\<bar> < 2 powi (expo x + 1)"
proof -
  have pos: "0 < \<bar>x\<bar>" using assms by simp
  have "\<lfloor>log 2 \<bar>x\<bar>\<rfloor> = expo x" by (simp add: expo_def)
  then have "2 powr real_of_int (expo x) \<le> \<bar>x\<bar> \<and> \<bar>x\<bar> < 2 powr (real_of_int (expo x) + 1)"
    using floor_log_eq_powr_iff[OF pos, of 2 "expo x"] by simp
  then show "2 powi expo x \<le> \<bar>x\<bar>" and "\<bar>x\<bar> < 2 powi (expo x + 1)"
    by (simp_all only: two_powr two_powr_succ)
qed

lemma expo_eq:
  assumes "2 powi e \<le> \<bar>x\<bar>" and "\<bar>x\<bar> < 2 powi (e + 1)"
  shows "expo x = e"
proof -
  have "0 < (2::real) powi e" by simp
  with assms(1) have pos: "0 < \<bar>x\<bar>" by linarith
  have "2 powr real_of_int e \<le> \<bar>x\<bar> \<and> \<bar>x\<bar> < 2 powr (real_of_int e + 1)"
    using assms by (simp only: two_powr two_powr_succ)
  then show ?thesis
    unfolding expo_def using floor_log_eq_powr_iff[OF pos, of 2 e] by simp
qed

lemma ulp_pos: "0 < ulp x"
  by (simp add: ulp_def)


lemma ulp_nonzero: "ulp x \<noteq> 0"
  using ulp_pos[of x] by linarith


lemma double_0: "double 0 = 0"
  by (simp add: double_def)



lemma double_eval:
  assumes "2 powi e \<le> \<bar>x\<bar>" and "\<bar>x\<bar> < 2 powi (e + 1)"
  shows "double x = real_of_int (round_even (x / 2 powi (e - 52))) * 2 powi (e - 52)"
proof -
  have "0 < (2::real) powi e" by simp
  with assms(1) have "0 < \<bar>x\<bar>" by linarith
  then have "x \<noteq> 0" by simp
  then show ?thesis by (simp add: double_def ulp_def expo_eq[OF assms])
qed

lemma double_exact:
  assumes x: "x = real_of_int m * 2 powi k" and m: "\<bar>m\<bar> < 2 ^ 53"
  shows "double x = x"
proof (cases "m = 0")
  case True
  then show ?thesis using x by (simp add: double_0)
next
  case False
  then have nz: "x \<noteq> 0" using x by simp
  have "\<bar>x\<bar> = real_of_int \<bar>m\<bar> * 2 powi k" using x by (simp add: abs_mult)
  also have "\<dots> < 2 ^ 53 * 2 powi k"
  proof -
    have "real_of_int \<bar>m\<bar> < real_of_int (2 ^ 53)" using m by (simp only: of_int_less_iff)
    then have "real_of_int \<bar>m\<bar> < 2 ^ 53" by simp
    then show ?thesis by (rule mult_strict_right_mono) simp
  qed
  also have "\<dots> = 2 powi (53 + k)" by (simp add: power_int_add)
  finally have "\<bar>x\<bar> < 2 powi (53 + k)" .
  moreover have "2 powi expo x \<le> \<bar>x\<bar>" using nz by (rule expo_bounds)
  ultimately have "(2::real) powi expo x < 2 powi (53 + k)" by linarith
  then have "expo x < 53 + k"
    using power_int_increasing[of "53 + k" "expo x" "2::real"] by (cases "expo x < 53 + k") auto
  then obtain n where n: "k - (expo x - 52) = int n"
    using nonneg_int_cases[of "k - (expo x - 52)"] by auto
  have "x / ulp x = real_of_int m * (2 powi k / 2 powi (expo x - 52))"
    using x by (simp add: ulp_def)
  also have "2 powi k / 2 powi (expo x - 52) = (2::real) powi (k - (expo x - 52))"
    by (simp add: power_int_diff)
  also have "\<dots> = 2 ^ n" by (simp add: n)
  finally have "x / ulp x = real_of_int (m * 2 ^ n)" by simp
  then have "real_of_int (round_even (x / ulp x)) = x / ulp x"
    by (simp only: round_even_int)
  then show ?thesis using nz by (simp add: double_def ulp_nonzero)
qed

lemma double_int: "\<bar>m\<bar> < 2 ^ 53 \<Longrightarrow> double (real_of_int m) = real_of_int m"
  using double_exact[of "real_of_int m" m 0] by simp

lemma double_numerals:
  "double 1 = 1" "double 2 = 2" "double 4 = 4" "double 30 = 30"
  "double 4000000000 = 4000000000"
  using double_int[of 1] double_int[of 2] double_int[of 4] double_int[of 30]
    double_int[of 4000000000]
  by simp_all

lemma double_three_halves: "double (3 / 2) = 3 / 2"
  using double_exact[of "3 / 2" 3 "- 1"] by simp

lemma double_09: "double 0.9 = 8106479329266893 / 9007199254740992"
  using double_eval[of "-1" "0.9"] by (simp add: round_even_def)

lemma double_09_exact:
  "double (8106479329266893 / 9007199254740992) = 8106479329266893 / 9007199254740992"
  using double_exact[of "8106479329266893 / 9007199254740992" 8106479329266893 "- 53"] by simp




section \<open>Constants evaluated\<close>


lemma focusSensitivity_eq: "focusSensitivity = 787"
  unfolding focusSensitivity_def py_int_def FOCUS_SENSITIVITY_def IM_HEIGHT_def IM_WIDTH_def FILTER_SCALE_def
  by (simp add: floor_eq_iff)


section \<open>Night mode\<close>

lemma night_update_flag:
  "nightMode (night_update l tick s) =
     (if l < real_of_int NIGHT_MODE_ON_THRESH \<and> \<not> nightMode s then True
      else if l > real_of_int NIGHT_MODE_OFF_THRESH \<and> nightMode s then False
      else nightMode s)"
  by (simp add: night_update_def)

lemma main_iteration_flag:
  "nightMode (snd (main_iteration freq l a b c s)) = nightMode (night_update l a s)"
  by (simp add: main_iteration_def Let_def)

lemma main_loop_length: "length (main_loop freq frames s) = length frames"
  by (induction frames arbitrary: s) (auto simp: Let_def)

lemma main_loop_flag_step:
  "i < length frames \<Longrightarrow>
   nightMode (main_loop freq frames s ! i) =
     nightMode (night_update (fst (frames ! i)) (fst (snd (frames ! i)))
                  ((s # main_loop freq frames s) ! i))"
proof (induction frames arbitrary: s i)
  case Nil
  then show ?case by simp
next
  case (Cons f frames)
  obtain l a b c where f: "f = (l, a, b, c)" by (cases f) auto
  show ?case
  proof (cases i)
    case 0
    then show ?thesis by (simp add: f Let_def main_iteration_flag)
  next
    case (Suc j)
    with Cons.prems have "j < length frames" by simp
    from Cons.IH[OF this, of "snd (main_iteration freq l a b c s)"]
    show ?thesis by (simp add: f Let_def Suc)
  qed
qed

text \<open>
  C4. In any run of the capture loop, the night flag goes from off to on only on a luma
  strictly below \<open>NIGHT_MODE_ON_THRESH\<close>, from on to off only on a luma strictly above
  \<open>NIGHT_MODE_OFF_THRESH\<close>, which is the higher of the two, and a luma between the two
  thresholds, bounds included, leaves the flag as it was.
\<close>

theorem night_hysteresis:
  assumes "i < length frames"
  shows "(\<not> nightMode ((s # main_loop freq frames s) ! i) \<and> nightMode (main_loop freq frames s ! i)
            \<longrightarrow> fst (frames ! i) < real_of_int NIGHT_MODE_ON_THRESH)
       \<and> (nightMode ((s # main_loop freq frames s) ! i) \<and> \<not> nightMode (main_loop freq frames s ! i)
            \<longrightarrow> fst (frames ! i) > real_of_int NIGHT_MODE_OFF_THRESH)
       \<and> (real_of_int NIGHT_MODE_ON_THRESH \<le> fst (frames ! i)
          \<and> fst (frames ! i) \<le> real_of_int NIGHT_MODE_OFF_THRESH
            \<longrightarrow> nightMode (main_loop freq frames s ! i) = nightMode ((s # main_loop freq frames s) ! i))
       \<and> NIGHT_MODE_ON_THRESH < NIGHT_MODE_OFF_THRESH"
  unfolding main_loop_flag_step[OF assms] night_update_flag
  by (auto simp: NIGHT_MODE_ON_THRESH_def NIGHT_MODE_OFF_THRESH_def)

lemma dusk_flags: "map nightMode (main_loop 1 dusk sched_init) = [True, False]"
  by (simp add: dusk_def sched_init_def main_iteration_flag night_update_flag Let_def
      NIGHT_MODE_ON_THRESH_def NIGHT_MODE_OFF_THRESH_def)

theorem night_hysteresis_witness:
  "map nightMode (main_loop 1 dusk sched_init) = [True, False]
   \<and> fst (dusk ! 0) < real_of_int NIGHT_MODE_ON_THRESH
   \<and> fst (dusk ! 1) > real_of_int NIGHT_MODE_OFF_THRESH"
proof -
  have len: "0 < length dusk" "1 < length dusk" by (simp_all add: dusk_def)
  have f: "main_loop 1 dusk sched_init ! 0 = hd (main_loop 1 dusk sched_init)"
    "(sched_init # main_loop 1 dusk sched_init) ! 0 = sched_init"
    "(sched_init # main_loop 1 dusk sched_init) ! 1 = main_loop 1 dusk sched_init ! 0"
    by (simp_all add: dusk_def Let_def)
  have n: "\<not> nightMode sched_init" by (simp add: sched_init_def)
  have m: "nightMode (main_loop 1 dusk sched_init ! 0)" "\<not> nightMode (main_loop 1 dusk sched_init ! 1)"
    using dusk_flags by (simp_all add: dusk_def Let_def)
  show ?thesis
    using night_hysteresis [OF len(1), of sched_init 1] night_hysteresis [OF len(2), of sched_init 1]
      dusk_flags n m f
    by simp
qed

text \<open>
  The claim C8 as stated fails: leaving night mode with a lap counter of 4 leaves it at 4,
  not at the number of phases.
\<close>

theorem reseed_not_always_phases:
  "nightMode \<lparr>phase = 1, frameTotal = 4, avgTime = 60, t1 = 0, nightMode = True, keepAlive = 4\<rparr>
   \<and> \<not> nightMode (night_update 20 0 \<lparr>phase = 1, frameTotal = 4, avgTime = 60, t1 = 0, nightMode = True, keepAlive = 4\<rparr>)
   \<and> frameTotal (night_update 20 0 \<lparr>phase = 1, frameTotal = 4, avgTime = 60, t1 = 0, nightMode = True, keepAlive = 4\<rparr>) \<noteq> PHASES"
  by (simp add: night_update_def PHASES_def NIGHT_MODE_ON_THRESH_def NIGHT_MODE_OFF_THRESH_def)

text \<open>
  C8, amended. When the night flag goes from on to off, the lap counter becomes its
  residue modulo \<open>PHASES\<close> plus \<open>PHASES\<close>, a value from \<open>PHASES\<close> to \<open>2 * PHASES - 1\<close> that
  is \<open>PHASES\<close> exactly when the counter was a multiple of \<open>PHASES\<close>; the average cycle
  time becomes 0.5 and the cycle boundary the current tick.
\<close>

theorem reseed_on_night_exit:
  assumes "nightMode s" and "\<not> nightMode (night_update l tick s)"
  shows "frameTotal (night_update l tick s) = frameTotal s mod PHASES + PHASES
       \<and> PHASES \<le> frameTotal (night_update l tick s)
       \<and> frameTotal (night_update l tick s) < 2 * PHASES
       \<and> (frameTotal (night_update l tick s) = PHASES \<longleftrightarrow> frameTotal s mod PHASES = 0)
       \<and> avgTime (night_update l tick s) = 0.5
       \<and> t1 (night_update l tick s) = tick"
  using assms by (auto simp: night_update_def PHASES_def split: if_splits)

theorem reseed_on_night_exit_witness:
  "frameTotal (night_update 20 7 \<lparr>phase = 1, frameTotal = 7, avgTime = 60, t1 = 0, nightMode = True, keepAlive = 7\<rparr>) = 4
   \<and> avgTime (night_update 20 7 \<lparr>phase = 1, frameTotal = 7, avgTime = 60, t1 = 0, nightMode = True, keepAlive = 7\<rparr>) = 0.5"
  using reseed_on_night_exit [of "\<lparr>phase = 1, frameTotal = 7, avgTime = 60, t1 = 0, nightMode = True, keepAlive = 7\<rparr>" 20 7]
  by (simp add: night_update_def PHASES_def NIGHT_MODE_ON_THRESH_def NIGHT_MODE_OFF_THRESH_def)


section \<open>The locked loop\<close>







text \<open>
  The claim C9 as stated fails: during the warm-up a cycle with the night flag on sleeps
  a quarter of a second and nothing more.
\<close>

theorem no_night_delay_in_warmup:
  "nightMode \<lparr>phase = 0, frameTotal = 0, avgTime = 0, t1 = 0, nightMode = True, keepAlive = 0\<rparr>
   \<and> real_of_int NIGHT_MODE_FRAME_SLOWDOWN
       \<notin> set (cycle_sleeps 1 1 \<lparr>phase = 0, frameTotal = 0, avgTime = 0, t1 = 0, nightMode = True, keepAlive = 0\<rparr>)"
  by (simp add: cycle_sleeps_def PHASES_def NIGHT_MODE_FRAME_SLOWDOWN_def)

text \<open>
  C9, amended. In every cycle past the warm-up with the night flag on, the sleep of
  \<open>NIGHT_MODE_FRAME_SLOWDOWN\<close> seconds is made, after the correction of the locked loop
  if there is one; a cycle of the warm-up sleeps a quarter of a second only, whatever the
  night flag.
\<close>

theorem night_delay_steady:
  "(PHASES \<le> frameTotal s \<and> nightMode s \<longrightarrow>
      cycle_sleeps freq tick s =
        (if deltaTime freq tick s < double (0.75 * avgTime s)
         then [double (double 0.9 * double (avgTime s - deltaTime freq tick s))] else [])
        @ [real_of_int NIGHT_MODE_FRAME_SLOWDOWN])
   \<and> (frameTotal s < PHASES \<longrightarrow> cycle_sleeps freq tick s = [0.25])"
  by (auto simp: cycle_sleeps_def)

theorem night_delay_steady_witness:
  "cycle_sleeps 1 1 \<lparr>phase = 0, frameTotal = 3, avgTime = 2, t1 = 0, nightMode = True, keepAlive = 3\<rparr>
     = [8106479329266893 / 9007199254740992, 60]
   \<and> cycle_sleeps 1 1 \<lparr>phase = 0, frameTotal = 2, avgTime = 2, t1 = 0, nightMode = True, keepAlive = 2\<rparr> = [0.25]"
  using night_delay_steady [of "\<lparr>phase = 0, frameTotal = 3, avgTime = 2, t1 = 0, nightMode = True, keepAlive = 3\<rparr>" 1 1]
        night_delay_steady [of "\<lparr>phase = 0, frameTotal = 2, avgTime = 2, t1 = 0, nightMode = True, keepAlive = 2\<rparr>" 1 1]
  by (simp add: PHASES_def deltaTime_def NIGHT_MODE_FRAME_SLOWDOWN_def double_numerals
      double_three_halves double_09 double_09_exact)


section \<open>The watchdog petter and the heartbeat\<close>














section \<open>The region of interest and the crop window\<close>

lemma update_roi_keeps:
  "imageLastSent (update_roi tick cs d) = imageLastSent d"
  "imageCapture (update_roi tick cs d) = imageCapture d"
  "dogImageCount (update_roi tick cs d) = dogImageCount d"
  "catImageCount (update_roi tick cs d) = catImageCount d"
  "frameCount (update_roi tick cs d) = frameCount d"
  by (induction cs arbitrary: d; simp split: prod.splits)+

lemma update_roi_capture:
  "update_roi tick cs (d\<lparr>imageCapture := b\<rparr>) = (update_roi tick cs d)\<lparr>imageCapture := b\<rparr>"
proof (induction cs arbitrary: d)
  case Nil
  show ?case by simp
next
  case (Cons c cs)
  obtain x y w h where r: "boundingRect c = (x, y, w, h)" by (cases "boundingRect c") auto
  let ?d' = "d\<lparr>refX := x, refY := y, refW := w, refH := h, lastActiveTime := tick\<rparr>"
  show ?case
  proof (cases "contourArea c > real_of_int focusSensitivity")
    case True
    have e: "d\<lparr>imageCapture := b, refX := x, refY := y, refW := w, refH := h, lastActiveTime := tick\<rparr>
             = ?d'\<lparr>imageCapture := b\<rparr>"
      by (cases d) simp
    have "update_roi tick (c # cs) (d\<lparr>imageCapture := b\<rparr>) = update_roi tick cs (?d'\<lparr>imageCapture := b\<rparr>)"
      using True by (simp add: r e)
    also have "\<dots> = (update_roi tick cs ?d')\<lparr>imageCapture := b\<rparr>" by (rule Cons.IH)
    also have "update_roi tick cs ?d' = update_roi tick (c # cs) d" using True by (simp add: r)
    finally show ?thesis .
  next
    case False
    then show ?thesis using Cons.IH by simp
  qed
qed


lemma target_seen_effects:
  "fst (target_seen freq tick stamp dog cat d) =
     (if cooled freq tick d then [Sprinklers, detected_notice stamp dog cat]
      else [ImWrite (imageFileName dog cat d)])"
  by (simp add: target_seen_def cooled_def Let_def imageFileName_def)

lemma target_seen_imageLastSent:
  "imageLastSent (snd (target_seen freq tick stamp dog cat d)) =
     (if cooled freq tick d then tick else imageLastSent d)"
  by (simp add: target_seen_def cooled_def Let_def)

lemma target_seen_imageCapture:
  "imageCapture (snd (target_seen freq tick stamp dog cat d)) = imageCapture d"
  by (simp add: target_seen_def Let_def)

lemma target_seen_roi:
  "roi (snd (target_seen freq tick stamp dog cat d)) = roi d"
  "lastActiveTime (snd (target_seen freq tick stamp dog cat d)) = lastActiveTime d"
  by (simp_all add: target_seen_def Let_def roi_def)

lemma target_seen_capture:
  "target_seen freq tick stamp dog cat (d\<lparr>imageCapture := b\<rparr>) =
     (fst (target_seen freq tick stamp dog cat d),
      (snd (target_seen freq tick stamp dog cat d))\<lparr>imageCapture := b\<rparr>)"
  by (simp add: target_seen_def Let_def cooled_def imageFileName_def)

lemma object_detector_imageLastSent:
  "imageLastSent (snd (object_detector freq ta ts stamp cnts dets d)) =
     (if catOrDog_flag dets \<and> cooled freq ts d then ts else imageLastSent d)"
  by (simp add: object_detector_def Let_def target_seen_imageLastSent cooled_def update_roi_keeps)

lemma object_detector_effects:
  "fst (object_detector freq ta ts stamp cnts dets d) =
     (if catOrDog_flag dets
      then (if cooled freq ts d then [Sprinklers, detected_notice stamp (dog_flag dets) (cat_flag dets)]
            else [ImWrite (imageFileName (dog_flag dets) (cat_flag dets)
                    (update_roi ta (largest cnts) d))])
      else [])
     @ manual_capture stamp d"
  by (simp add: object_detector_def Let_def target_seen_effects target_seen_imageCapture
      cooled_def update_roi_keeps manual_capture_def imageFileName_def)

lemma object_detector_capture:
  "snd (object_detector freq ta ts stamp cnts dets (d\<lparr>imageCapture := b\<rparr>)) =
     (snd (object_detector freq ta ts stamp cnts dets d))\<lparr>imageCapture := b\<rparr>"
  by (simp add: object_detector_def Let_def update_roi_capture target_seen_def cooled_def
      imageFileName_def)

lemma object_detector_roi:
  "roi (snd (object_detector freq ta ts stamp cnts dets d)) = roi (update_roi ta (largest cnts) d)"
  "lastActiveTime (snd (object_detector freq ta ts stamp cnts dets d)) =
     lastActiveTime (update_roi ta (largest cnts) d)"
  by (simp_all add: object_detector_def Let_def target_seen_roi) (simp_all add: roi_def)

lemma detected_is_notice:
  "is_detection_notice (detected_notice stamp dog cat)"
  "\<not> is_archive (detected_notice stamp dog cat)"
  "detected_notice stamp dog cat \<noteq> Sprinklers"
  by (simp_all add: detected_notice_def messageObject_def)

lemma manual_counts:
  "notices (manual_capture stamp d) = 0"
  "sprinkler_starts (manual_capture stamp d) = 0"
  "archived (manual_capture stamp d) = 0"
  by (simp_all add: manual_capture_def notices_def sprinkler_starts_def archived_def)

lemma counts_append:
  "notices (xs @ ys) = notices xs + notices ys"
  "sprinkler_starts (xs @ ys) = sprinkler_starts xs + sprinkler_starts ys"
  "archived (xs @ ys) = archived xs + archived ys"
  by (simp_all add: notices_def sprinkler_starts_def archived_def)

lemma object_detector_counts:
  assumes "catOrDog_flag dets"
  shows "notices (fst (object_detector freq ta ts stamp cnts dets d)) = (if cooled freq ts d then 1 else 0)"
    and "sprinkler_starts (fst (object_detector freq ta ts stamp cnts dets d)) = (if cooled freq ts d then 1 else 0)"
    and "archived (fst (object_detector freq ta ts stamp cnts dets d)) = (if cooled freq ts d then 0 else 1)"
  using assms
  by (simp_all add: object_detector_effects counts_append manual_counts)
     (simp_all add: notices_def sprinkler_starts_def archived_def detected_is_notice)




lemma detect_frame_motion:
  assumes "largest (in_contours f) = [c]" and "contourArea c > real_of_int focusSensitivity"
  shows "roi (snd (detect_frame freq f d)) = boundingRect c"
    and "lastActiveTime (snd (detect_frame freq f d)) = in_tickActive f"
  using assms
  by (simp_all add: detect_frame_def object_detector_roi) (simp_all add: roi_def split: prod.splits)


lemma py_int_of_int: "py_int (real_of_int k) = k"
  by (simp add: py_int_def)

lemma searchWidth_eq: "searchWidth = 608"
  by (simp add: searchWidth_def py_int_def IM_HEIGHT_def)

lemma searchOffset_formula:
  "searchOffset d = max 0 (4 * refX d + 2 * refW d - 304)"
proof -
  have "(real_of_int (refX d) + real_of_int (refW d) / 2) * real_of_int FILTER_SCALE
          - real_of_int searchWidth / 2
        = real_of_int (4 * refX d + 2 * refW d - 304)"
    by (simp add: FILTER_SCALE_def searchWidth_eq algebra_simps)
  then show ?thesis by (simp only: searchOffset_def py_int_of_int)
qed

lemma window_of_roi:
  assumes "roi d = (x, y, w, h)"
  shows "searchOffset d = max 0 (4 * x + 2 * w - 304)"
    and "304 \<le> 4 * x + 2 * w \<Longrightarrow> 4 * x + 2 * w \<le> 1728 \<Longrightarrow>
           processFrame_columns d = (4 * x + 2 * w - 304, 4 * x + 2 * w + 304)
           \<and> roi_centre d = real_of_int (4 * x + 2 * w)
           \<and> columns_centre (processFrame_columns d) = roi_centre d"
    and "4 * x + 2 * w < 304 \<Longrightarrow> processFrame_columns d = (0, 608)"
proof -
  from assms have r: "refX d = x" "refW d = w" by (simp_all add: roi_def)
  show o: "searchOffset d = max 0 (4 * x + 2 * w - 304)"
    by (simp add: searchOffset_formula r)
  show "processFrame_columns d = (4 * x + 2 * w - 304, 4 * x + 2 * w + 304)
           \<and> roi_centre d = real_of_int (4 * x + 2 * w)
           \<and> columns_centre (processFrame_columns d) = roi_centre d"
    if "304 \<le> 4 * x + 2 * w" and "4 * x + 2 * w \<le> 1728"
    using that
    by (simp add: processFrame_columns_def o searchWidth_eq IM_WIDTH_def roi_centre_def
        columns_centre_def r FILTER_SCALE_def algebra_simps)
  show "processFrame_columns d = (0, 608)" if "4 * x + 2 * w < 304"
    using that by (simp add: processFrame_columns_def o searchWidth_eq IM_WIDTH_def)
qed




text \<open>
  C5. The crop window is \<open>IM_HEIGHT\<close> wide and never starts left of column 0, but nothing
  keeps it from running past the right edge: for a contour at the right edge of the scaled
  frame the window would span the columns 1596 to 2204 of a frame that is 2032 wide, and
  the slice that is taken has 436 columns only.
\<close>

theorem crop_window_past_right_edge:
  "roi (snd (detector_run 1 [still_frame 1, motion_frame right_edge 2] (detector_init 1) ! 1))
     = (450, 100, 50, 20)
   \<and> searchOffset (snd (detector_run 1 [still_frame 1, motion_frame right_edge 2]
                          (detector_init 1) ! 1)) = 1596
   \<and> searchWidth = 608
   \<and> IM_WIDTH = 2032
   \<and> processFrame_columns (snd (detector_run 1 [still_frame 1, motion_frame right_edge 2]
                                  (detector_init 1) ! 1)) = (1596, 2032)"
proof -
  let ?d = "snd (detector_run 1 [still_frame 1, motion_frame right_edge 2] (detector_init 1) ! 1)"
  have l: "largest (in_contours (motion_frame right_edge 2)) = [right_edge]"
    by (simp add: largest_def motion_frame_def)
  have a: "contourArea right_edge > real_of_int focusSensitivity"
    by (simp add: right_edge_def focusSensitivity_eq)
  have r: "roi ?d = (450, 100, 50, 20)"
    using detect_frame_motion(1)[OF l a] by (simp add: right_edge_def)
  then have o: "searchOffset ?d = 1596"
    using window_of_roi(1)[of ?d 450 100 50 20] by simp
  show ?thesis
    using r o by (simp add: processFrame_columns_def searchWidth_eq IM_WIDTH_def)
qed


section \<open>Notifications, their throttle and the archive\<close>

lemma double_cooldown: "double (double (real_of_int TIME_BETWEEN_MESSAGES)) = 30"
  by (simp add: TIME_BETWEEN_MESSAGES_def double_numerals)

text \<open>
  The claim C1 as stated fails: after a notice sent at tick 95 (one tick a second), the
  detections at ticks 100 and 110, less than the 30 seconds apart, send no notice at all,
  and of the detections at ticks 100 and 131, more than 30 seconds apart, only the second
  sends one.
\<close>

theorem throttled_pair_sends_less:
  "notices (fst (detector_run 1 [animal_frame 18 95, animal_frame 18 100, animal_frame 18 110]
                   (detector_init 1) ! 1)
            @ fst (detector_run 1 [animal_frame 18 95, animal_frame 18 100, animal_frame 18 110]
                     (detector_init 1) ! 2)) = 0
   \<and> notices (fst (detector_run 1 [animal_frame 18 95, animal_frame 18 100, animal_frame 18 131]
                      (detector_init 1) ! 1)
               @ fst (detector_run 1 [animal_frame 18 95, animal_frame 18 100, animal_frame 18 131]
                        (detector_init 1) ! 2)) = 1"
  by (simp add: detect_frame_def animal_frame_def detector_init_def object_detector_def Let_def
      largest_def catOrDog_flag_def cat_flag_def dog_flag_def kept_def target_seen_def cooled_def
      double_cooldown manual_capture_def detected_notice_def messageObject_def
      imageFileName_def notices_def)

text \<open>
  C1, amended. A frame with a cat or a dog starts the sprinkler thread and the notice of
  the detection exactly when the ticks since \<open>imageLastSent\<close> exceed the float product
  \<open>TIME_BETWEEN_MESSAGES * freq\<close>, and then \<open>imageLastSent\<close> becomes the tick of the frame;
  otherwise it stays. So, for calls that run one after the other, of two such frames the
  first of which sends its notice, the second sends one too when it comes more than the
  time between messages later, and does not when it comes earlier or exactly that much
  later; and when the first sends none, the second sends one exactly when the time between
  messages has passed since \<open>imageLastSent\<close>.
\<close>

theorem notification_throttle:
  assumes "catOrDog_flag dets" and "catOrDog_flag dets'"
  shows "notices (fst (object_detector freq ta ts stamp cnts dets d)) = (if cooled freq ts d then 1 else 0)
       \<and> sprinkler_starts (fst (object_detector freq ta ts stamp cnts dets d))
           = (if cooled freq ts d then 1 else 0)
       \<and> imageLastSent (snd (object_detector freq ta ts stamp cnts dets d))
           = (if cooled freq ts d then ts else imageLastSent d)
       \<and> (cooled freq ts d \<longrightarrow>
            notices (fst (object_detector freq ta ts stamp cnts dets d)
                     @ fst (object_detector freq ta' ts' stamp' cnts' dets'
                              ((snd (object_detector freq ta ts stamp cnts dets d))\<lparr>imageCapture := c\<rparr>)))
            = (if real_of_int (ts' - ts) > double (double (real_of_int TIME_BETWEEN_MESSAGES) * freq)
               then 2 else 1))
       \<and> (\<not> cooled freq ts d \<longrightarrow>
            notices (fst (object_detector freq ta ts stamp cnts dets d)
                     @ fst (object_detector freq ta' ts' stamp' cnts' dets'
                              ((snd (object_detector freq ta ts stamp cnts dets d))\<lparr>imageCapture := c\<rparr>)))
            = (if real_of_int (ts' - imageLastSent d)
                    > double (double (real_of_int TIME_BETWEEN_MESSAGES) * freq)
               then 1 else 0))
       \<and> (cooled freq ts d \<longleftrightarrow>
            real_of_int (ts - imageLastSent d)
              > double (double (real_of_int TIME_BETWEEN_MESSAGES) * freq))"
  using assms
  by (simp add: object_detector_counts counts_append object_detector_imageLastSent)
     (simp add: cooled_def object_detector_imageLastSent)

theorem notification_throttle_witness:
  "catOrDog_flag [\<lparr>score = 0.9, classId = 18\<rparr>]
   \<and> cooled 1 100 (detector_init 1)
   \<and> notices (fst (object_detector 1 100 100 [] [] [\<lparr>score = 0.9, classId = 18\<rparr>] (detector_init 1))
              @ fst (object_detector 1 110 110 [] [] [\<lparr>score = 0.9, classId = 18\<rparr>]
                      ((snd (object_detector 1 100 100 [] [] [\<lparr>score = 0.9, classId = 18\<rparr>]
                               (detector_init 1)))\<lparr>imageCapture := False\<rparr>))) = 1
   \<and> notices (fst (object_detector 1 100 100 [] [] [\<lparr>score = 0.9, classId = 18\<rparr>] (detector_init 1))
              @ fst (object_detector 1 131 131 [] [] [\<lparr>score = 0.9, classId = 18\<rparr>]
                      ((snd (object_detector 1 100 100 [] [] [\<lparr>score = 0.9, classId = 18\<rparr>]
                               (detector_init 1)))\<lparr>imageCapture := False\<rparr>))) = 2"
proof -
  have f: "catOrDog_flag [\<lparr>score = 0.9, classId = 18\<rparr>]"
    by (simp add: catOrDog_flag_def kept_def)
  have c: "cooled 1 100 (detector_init 1)"
    by (simp add: cooled_def detector_init_def double_cooldown)
  show ?thesis
    using f c
      notification_throttle [OF f f, where freq = 1 and ta = 100 and ts = 100 and stamp = "[]"
        and cnts = "[]" and d = "detector_init 1" and ta' = 110 and ts' = 110 and stamp' = "[]"
        and cnts' = "[]" and c = False]
      notification_throttle [OF f f, where freq = 1 and ta = 100 and ts = 100 and stamp = "[]"
        and cnts = "[]" and d = "detector_init 1" and ta' = 131 and ts' = 131 and stamp' = "[]"
        and cnts' = "[]" and c = False]
    by (simp add: double_cooldown)
qed

text \<open>
  C7. The two counters are kept apart and wrap at 100, but the file name always carries
  the dog counter: after a notice, two frames with a cat are both written to
  \<^verbatim>\<open>Cat_0.jpg\<close>, while the cat counter goes from 0 to 1 and on to 2.
\<close>

theorem cat_archive_named_by_dog_counter:
  "map fst (detector_run 1 [animal_frame 17 100, animal_frame 17 101, animal_frame 17 102]
              (detector_init 1))
     = [[Sprinklers, Notify ''Cat Detected'' ''There is a Cat in the front yard! ''],
        [ImWrite ''/var/ramdisk/Cat_0.jpg''],
        [ImWrite ''/var/ramdisk/Cat_0.jpg'']]
   \<and> catImageCount (snd (detector_run 1 [animal_frame 17 100, animal_frame 17 101]
                            (detector_init 1) ! 1)) = 1"
  by (simp add: detect_frame_def animal_frame_def detector_init_def object_detector_def Let_def
      largest_def catOrDog_flag_def cat_flag_def dog_flag_def kept_def target_seen_def cooled_def
      double_cooldown manual_capture_def detected_notice_def messageObject_def
      imageFileName_def RAM_DISK_def str_int_def)

text \<open>
  C10. With \<open>imageCapture\<close> set, the call starts the notice of a manual capture. That
  notice does not depend on \<open>imageLastSent\<close>, and the state after the call, \<open>imageLastSent\<close>
  included, is the one the call leaves with the flag off, but for the flag itself; the
  other effects of the call are those with the flag off.
\<close>

theorem manual_capture_leaves_cooldown:
  "(imageCapture d \<longrightarrow>
      Notify ''Manual Image Captured'' (''Manual image capture @ '' @ stamp)
        \<in> set (fst (object_detector freq ta ts stamp cnts dets d)))
   \<and> fst (object_detector freq ta ts stamp cnts dets d)
       = fst (object_detector freq ta ts stamp cnts dets (d\<lparr>imageCapture := False\<rparr>))
         @ manual_capture stamp d
   \<and> snd (object_detector freq ta ts stamp cnts dets d)
       = (snd (object_detector freq ta ts stamp cnts dets (d\<lparr>imageCapture := False\<rparr>)))
           \<lparr>imageCapture := imageCapture d\<rparr>
   \<and> imageLastSent (snd (object_detector freq ta ts stamp cnts dets d))
       = imageLastSent (snd (object_detector freq ta ts stamp cnts dets (d\<lparr>imageCapture := False\<rparr>)))
   \<and> (\<not> catOrDog_flag dets \<longrightarrow>
         imageLastSent (snd (object_detector freq ta ts stamp cnts dets d)) = imageLastSent d)
   \<and> manual_capture stamp (d\<lparr>imageLastSent := x\<rparr>) = manual_capture stamp d"
proof -
  have "(d\<lparr>imageCapture := False\<rparr>)\<lparr>imageCapture := imageCapture d\<rparr> = d" by simp
  then have "snd (object_detector freq ta ts stamp cnts dets d)
       = (snd (object_detector freq ta ts stamp cnts dets (d\<lparr>imageCapture := False\<rparr>)))
           \<lparr>imageCapture := imageCapture d\<rparr>"
    using object_detector_capture[where d = "d\<lparr>imageCapture := False\<rparr>" and b = "imageCapture d"]
    by simp
  moreover have "fst (object_detector freq ta ts stamp cnts dets d)
       = fst (object_detector freq ta ts stamp cnts dets (d\<lparr>imageCapture := False\<rparr>))
         @ manual_capture stamp d"
    by (simp add: object_detector_effects update_roi_capture cooled_def imageFileName_def)
       (simp add: manual_capture_def)
  ultimately show ?thesis
    by (simp add: object_detector_imageLastSent cooled_def) (simp add: manual_capture_def)
qed

theorem manual_capture_leaves_cooldown_witness:
  "fst (object_detector 1 5 5 [] [] [] ((detector_init 1)\<lparr>imageCapture := True\<rparr>))
     = [Notify ''Manual Image Captured'' ''Manual image capture @ '']
   \<and> imageLastSent (snd (object_detector 1 5 5 [] [] [] ((detector_init 1)\<lparr>imageCapture := True\<rparr>))) = 0"
  using manual_capture_leaves_cooldown [where d = "(detector_init 1)\<lparr>imageCapture := True\<rparr>"
      and freq = 1 and ta = 5 and ts = 5 and stamp = "[]" and cnts = "[]" and dets = "[]" and x = 0]
  by (simp add: catOrDog_flag_def kept_def detector_init_def object_detector_effects manual_capture_def)

end
